theory Spec2Isabelle
  imports Complex_Main
begin

section \<open>Conventions of the embedding\<close>

text \<open>
  The three RTMaps components of the repository (the green window estimator
  \<^verbatim>\<open>GreenWindowEstimator.py\<close>, the scenario identifier \<^verbatim>\<open>DMSI.py\<close> and the trajectory
  generator \<^verbatim>\<open>DMTG.py\<close>) are embedded as HOL functions.

  \<^item> Python floats are idealised as \<^typ>\<open>real\<close>: no rounding, no overflow, no infinities.
  \<^item> The operands of every \<^verbatim>\<open>/\<close> are taken to be Python floats, so a zero divisor raises
    \<^verbatim>\<open>ZeroDivisionError\<close>; this is \<open>py_div\<close>.
  \<^item> \<^verbatim>\<open>np.sqrt\<close> of a negative number is \<^verbatim>\<open>nan\<close> (with a warning, no exception); \<open>nan\<close> is
    the value \<open>None\<close> of \<open>np_sqrt\<close>. Python's \<^verbatim>\<open>min(a, b)\<close> keeps \<open>a\<close> unless \<^verbatim>\<open>b < a\<close>, and
    every comparison with \<^verbatim>\<open>nan\<close> is false; this is \<open>py_min\<close>.
  \<^item> An exception is a value \<open>Inl e\<close>; a component's \<^verbatim>\<open>Core\<close> returns the state it leaves
    behind together with either the exception that escapes it or what it wrote to its
    outputs.
  \<^item> An input whose \<^verbatim>\<open>ioelt.data\<close> the code tests against \<^verbatim>\<open>None\<close> is an \<open>option\<close>.
\<close>

datatype error =
  ZeroDivisionError | TypeError | ValueError | UnboundLocalError | IndexError | OSError

definition and_then :: "error + 'a \<Rightarrow> ('a \<Rightarrow> error + 'b) \<Rightarrow> error + 'b" where
  "and_then r k = (case r of Inl e \<Rightarrow> Inl e | Inr x \<Rightarrow> k x)"

definition py_div :: "real \<Rightarrow> real \<Rightarrow> error + real" where
  "py_div a b = (if b = 0 then Inl ZeroDivisionError else Inr (a / b))"

type_synonym seconds = real
type_synonym metres = real
type_synonym speed = real
type_synonym rate = real

definition np_sqrt :: "real \<Rightarrow> real option" where
  "np_sqrt x = (if x < 0 then None else Some (sqrt x))"

definition py_min :: "real \<Rightarrow> real option \<Rightarrow> real" where
  "py_min a b = (case b of None \<Rightarrow> a | Some y \<Rightarrow> if y < a then y else a)"

text \<open>\<^verbatim>\<open>int(x)\<close> truncates towards zero.\<close>

definition py_int :: "real \<Rightarrow> int" where
  "py_int x = (if 0 \<le> x then \<lfloor>x\<rfloor> else \<lceil>x\<rceil>)"

text \<open>
  \<^verbatim>\<open>round(float(t * 1e-6), 2)\<close>: the microsecond time stamp in seconds with two decimals
  (ties, which depend on the binary representation in Python, are rounded up here).
\<close>

definition seconds_of :: "int \<Rightarrow> real" where
  "seconds_of t = of_int (round (of_int t / (10000::real))) / 100"

text \<open>\<^verbatim>\<open>xs[i]\<close>: a negative index counts from the end, an index out of range raises.\<close>

definition py_index :: "'a list \<Rightarrow> int \<Rightarrow> error + 'a" where
  "py_index xs i =
     (if 0 \<le> i \<and> i < int (length xs) then Inr (xs ! nat i)
      else if i < 0 \<and> - int (length xs) \<le> i then Inr (xs ! nat (int (length xs) + i))
      else Inl IndexError)"

text \<open>
  \<^verbatim>\<open>np.arange(start, stop, step)\<close>: \<open>\<lceil>(stop - start) / step\<rceil>\<close> samples \<open>start + i * step\<close>
  (none when that number is not positive).
\<close>

definition np_arange :: "real \<Rightarrow> real \<Rightarrow> real \<Rightarrow> real list" where
  "np_arange start stop step =
     map (\<lambda>i. start + of_nat i * step) [0 ..< nat \<lceil>(stop - start) / step\<rceil>]"

section \<open>The locals shared by the classifier and the planner\<close>

text \<open>
  Both \<^verbatim>\<open>DMSI.Core\<close> (lines 81 to 102) and \<^verbatim>\<open>DMTG.compute_velocity_profile\<close> (lines 243 to
  265) open with the same block of local variables. The record holds the locals that are
  live after the block, each under its source name with the prefix \<open>k_\<close>.
\<close>

record kinematics =
  k_a_max :: real
  k_d_max :: real
  k_jerk_max :: real
  k_v_limit :: real
  k_v_coast :: real
  k_v_c_ms :: real
  k_v_limit_ms :: real
  k_v_coast_ms :: real
  k_p :: real
  k_q :: real
  k_t_cr :: real
  k_t_e :: real
  k_t_l :: real

section \<open>The scenario identifier (DMSI.py)\<close>

text \<open>Lines 81 to 102 of \<^verbatim>\<open>DMSI.Core\<close>.\<close>

definition dmsi_kinematics :: "real \<Rightarrow> real \<Rightarrow> error + kinematics" where
  "dmsi_kinematics d_0_in v_c_in =
    (let a_max = 1; d_max = 1; jerk_max = 1;
         v_limit = 5633 / 100; v_coast = 1287 / 100;
         v_c_ms = v_c_in * (5 / 18);
         v_limit_ms = v_limit * (5 / 18);
         v_coast_ms = v_coast * (5 / 18)
     in and_then (py_div (2 * a_max) (v_limit_ms - v_c_ms)) (\<lambda>term1p.
        and_then (py_div (2 * jerk_max) (v_limit_ms - v_c_ms)) (\<lambda>arg2p.
        let term2p = np_sqrt arg2p in
        and_then (py_div (2 * a_max) (v_c_ms - v_coast_ms)) (\<lambda>term1q.
        and_then (py_div (2 * jerk_max) (v_c_ms - v_coast_ms)) (\<lambda>arg2q.
        let term2q = np_sqrt arg2q;
            p = py_min term1p term2p;
            q = py_min term1q term2q in
        and_then (py_div d_0_in v_c_ms) (\<lambda>t_cr.
        and_then (py_div (v_c_ms * pi) (2 * p)) (\<lambda>e1.
        and_then (py_div (d_0_in - e1) v_limit_ms) (\<lambda>e2.
        and_then (py_div pi (2 * p)) (\<lambda>e3.
        and_then (py_div (v_c_ms * pi) (2 * q)) (\<lambda>l1.
        and_then (py_div (d_0_in - l1) v_coast_ms) (\<lambda>l2.
        and_then (py_div pi (2 * q)) (\<lambda>l3.
        Inr \<lparr>k_a_max = a_max, k_d_max = d_max, k_jerk_max = jerk_max,
             k_v_limit = v_limit, k_v_coast = v_coast,
             k_v_c_ms = v_c_ms, k_v_limit_ms = v_limit_ms, k_v_coast_ms = v_coast_ms,
             k_p = p, k_q = q, k_t_cr = t_cr, k_t_e = e2 + e3, k_t_l = l2 + l3\<rparr>))))))))))))"

text \<open>Lines 69 to 74 of \<^verbatim>\<open>DMSI.Core\<close>. A Python tuple is a list here.\<close>

definition dmsi_gamma :: "real \<Rightarrow> real \<Rightarrow> real \<Rightarrow> real \<Rightarrow> real list list" where
  "dmsi_gamma t_0_in g_e_curr g_s_next g_e_next =
     (if g_e_curr = - 1 then [[g_s_next, g_e_next]]
      else [[t_0_in, g_e_curr], [g_s_next, g_e_next]])"

text \<open>
  The three loops of \<^verbatim>\<open>identify_scenario\<close>. Each looks only at the intervals of length
  two and stops at the first one that passes its test.
\<close>

fun cruise_in_green :: "real list list \<Rightarrow> real \<Rightarrow> bool" where
  "cruise_in_green [] t_cr = False"
| "cruise_in_green ([start, stop] # rest) t_cr =
     (if start \<le> t_cr \<and> t_cr < stop then True else cruise_in_green rest t_cr)"
| "cruise_in_green (_ # rest) t_cr = cruise_in_green rest t_cr"

fun early_in_green :: "real list list \<Rightarrow> real \<Rightarrow> real \<Rightarrow> bool" where
  "early_in_green [] t_e t_cr = False"
| "early_in_green ([start, stop] # rest) t_e t_cr =
     (if max t_e start < min t_cr stop then True else early_in_green rest t_e t_cr)"
| "early_in_green (_ # rest) t_e t_cr = early_in_green rest t_e t_cr"

fun overlap_found :: "real list list \<Rightarrow> real \<Rightarrow> real \<Rightarrow> bool" where
  "overlap_found [] t_cr t_l = False"
| "overlap_found ([start, stop] # rest) t_cr t_l =
     (if max t_cr start < min t_l stop then True else overlap_found rest t_cr t_l)"
| "overlap_found (_ # rest) t_cr t_l = overlap_found rest t_cr t_l"

definition identify_scenario ::
  "real list list \<Rightarrow> real \<Rightarrow> real \<Rightarrow> real \<Rightarrow> string \<times> int" where
  "identify_scenario gamma_intervals t_cr t_e t_l =
     (if cruise_in_green gamma_intervals t_cr then (''Scenario 1'', 1)
      else if early_in_green gamma_intervals t_e t_cr then (''Scenario 2'', 2)
      else if \<not> overlap_found gamma_intervals t_cr t_l then (''Scenario 3'', 3)
      else (''Scenario 4'', 4))"

record si_inputs =
  si_d_0 :: "real option"
  si_v_c_in :: "real option"
  si_t_0 :: int
  si_g_e_curr :: "real option"
  si_g_s_next :: "real option"
  si_g_e_next :: "real option"

text \<open>What one call of \<^verbatim>\<open>DMSI.Core\<close> writes; \<open>None\<close> is an output left unwritten.\<close>

record si_outputs =
  scenario_out :: "string option"
  scenario_n_out :: "int option"
  d_0_out :: "real option"

text \<open>
  \<^verbatim>\<open>DMSI.Core\<close>. The component keeps no state. The speed test of lines 105 to 114 comes
  after the block of lines 81 to 102, as in the source.
\<close>

definition si_Core :: "si_inputs \<Rightarrow> error + si_outputs" where
  "si_Core inp =
    (case (si_d_0 inp, si_v_c_in inp, si_g_e_curr inp, si_g_s_next inp, si_g_e_next inp) of
       (Some d_0_in, Some v_c_in, Some g_e_curr, Some g_s_next, Some g_e_next) \<Rightarrow>
         (let t_0_in = seconds_of (si_t_0 inp);
              gamma_intervals = dmsi_gamma t_0_in g_e_curr g_s_next g_e_next
          in and_then (dmsi_kinematics d_0_in v_c_in) (\<lambda>k.
             if k_v_c_ms k < 0 then
               Inr \<lparr>scenario_out = Some ''Invalid Speed'', scenario_n_out = None,
                    d_0_out = Some d_0_in\<rparr>
             else if k_v_c_ms k > k_v_limit_ms k then
               Inr \<lparr>scenario_out = Some ''Invalid Speed'', scenario_n_out = None,
                    d_0_out = Some d_0_in\<rparr>
             else
               (let (scenario_result, scenario_n) =
                      identify_scenario gamma_intervals (k_t_cr k) (k_t_e k) (k_t_l k)
                in Inr \<lparr>scenario_out = Some scenario_result,
                        scenario_n_out = Some scenario_n,
                        d_0_out = Some d_0_in\<rparr>)))
     | _ \<Rightarrow>
         Inr \<lparr>scenario_out = Some ''Missing Inputs'', scenario_n_out = None,
              d_0_out = None\<rparr>)"

section \<open>The green window estimator (GreenWindowEstimator.py)\<close>

text \<open>\<^verbatim>\<open>str.strip()\<close> removes the white space at both ends.\<close>

definition is_space :: "char \<Rightarrow> bool" where
  "is_space c \<longleftrightarrow>
     of_char c \<in> {9, 10, 11, 12, 13, 28, 29, 30, 31, 32, 133, 160 :: nat}"

definition strip :: "string \<Rightarrow> string" where
  "strip s = rev (dropWhile is_space (rev (dropWhile is_space s)))"

definition state_name_to_number :: "string \<Rightarrow> real" where
  "state_name_to_number state_name =
     (let state_map =
            [(''unavailable'', 0),
             (''dark'', 1),
             (''stop-Then-Proceed'', 2),
             (''stop-And-Remain'', 3),
             (''pre-Movement'', 4),
             (''permissive-Movement-Allowed'', 5),
             (''protected-Movement-Allowed'', 6),
             (''permissive-clearance'', 7),
             (''protected-clearance'', 8),
             (''caution-Conflicting-Traffic'', 9)]
      in case map_of state_map (strip state_name) of
           Some number \<Rightarrow> number
         | None \<Rightarrow> - 1)"

text \<open>
  \<^verbatim>\<open>estimate_green_window_from_countdown\<close> returns the triple
  \<^verbatim>\<open>(g_s_next, g_e_next, g_e_curr)\<close>, or three times \<^verbatim>\<open>None\<close> for a state that is neither
  red, yellow nor green.
\<close>

definition estimate_green_window_from_countdown ::
  "real \<Rightarrow> real \<Rightarrow> int \<Rightarrow> real \<Rightarrow> real option \<times> real option \<times> real option" where
  "estimate_green_window_from_countdown t0 current_state countdown_value next_green_duration =
     (let time_until_phase_change = of_int countdown_value * (1 / 10);
          g_e_curr = - 1
      in if current_state \<in> {2, 3} then
           (let g_s_next = time_until_phase_change;
                g_e_next = g_s_next + next_green_duration
            in (Some g_s_next, Some g_e_next, Some g_e_curr))
         else if current_state \<in> {7, 8, 9} then
           (let red_duration = 50;
                g_s_next = time_until_phase_change + red_duration;
                g_e_next = g_s_next + next_green_duration
            in (Some g_s_next, Some g_e_next, Some g_e_curr))
         else if current_state \<in> {4, 5, 6} then
           (let yellow_red_duration = 50 * 2;
                g_e_curr = time_until_phase_change;
                g_s_next = g_e_curr + yellow_red_duration;
                g_e_next = g_s_next + next_green_duration
            in (Some g_s_next, Some g_e_next, Some g_e_curr))
         else (None, None, None))"

text \<open>\<^verbatim>\<open>gamma_function\<close>; \<^verbatim>\<open>Core\<close> calls it and drops its result.\<close>

definition gamma_function ::
  "real \<Rightarrow> real \<Rightarrow> real \<Rightarrow> real \<Rightarrow> real \<Rightarrow> (real \<times> real) list" where
  "gamma_function t0 current_state g_e_curr g_s_next g_e_next =
     (if current_state \<in> {0, 1} then []
      else if current_state \<in> {4, 5, 6} then
        (if t0 < g_e_curr then [(t0, g_e_curr)] else []) @ [(g_s_next, g_e_next)]
      else [(g_s_next, g_e_next)])"

text \<open>
  The attributes of the component. \<open>has_last_cd_tick\<close> is \<^verbatim>\<open>hasattr(self, "last_cd_tick")\<close>:
  the three tick attributes exist only after the first cycle that passes the
  intersection test. The attributes \<^verbatim>\<open>last_spat_t0\<close> and \<^verbatim>\<open>cached_schedule\<close> are set to
  \<^verbatim>\<open>None\<close> by \<^verbatim>\<open>__init__\<close> and never read or written again; they are left out.
\<close>

record gwe_state =
  has_last_cd_tick :: bool
  self_last_cd_tick :: "int option"
  self_last_tick_time :: "real option"
  self_tick_intervals :: "real list"
  self_g_e_curr :: "real option"
  self_g_s_next :: "real option"
  self_g_e_next :: "real option"

definition gwe_init :: gwe_state where
  "gwe_init =
     \<lparr>has_last_cd_tick = False, self_last_cd_tick = None, self_last_tick_time = None,
      self_tick_intervals = [],
      self_g_e_curr = None, self_g_s_next = None, self_g_e_next = None\<rparr>"

record gwe_inputs =
  in_Intersection_ID_matched :: "real option"
  in_IntersectionID_SPaT :: "real option"
  in_t0 :: int
  in_current_state :: string
  in_countdown :: real

record gwe_outputs =
  g_e_curr_out :: real
  g_s_next_out :: real
  g_e_next_out :: real
  state_out :: real

text \<open>Lines 94 to 97 of \<^verbatim>\<open>Core\<close>: the averaged tick duration with its floor.\<close>

definition avg_tick_duration :: "real list \<Rightarrow> real" where
  "avg_tick_duration tick_intervals =
     (let avg = (if tick_intervals \<noteq> [] then sum_list tick_intervals / of_nat (length tick_intervals)
                 else 1 / 10)
      in if avg < 8 / 100 then 1 / 10 else avg)"

text \<open>Lines 84 to 101 of \<^verbatim>\<open>Core\<close>: the body of \<^verbatim>\<open>if count_down_in != self.last_cd_tick\<close>.\<close>

definition on_new_tick :: "gwe_state \<Rightarrow> real \<Rightarrow> real \<Rightarrow> int \<Rightarrow> gwe_state" where
  "on_new_tick s t0_in current_state_in count_down_in =
     (let tick_intervals =
            (case self_last_tick_time s of
               Some last_tick_time \<Rightarrow>
                 (let actual_interval = t0_in - last_tick_time;
                      appended = self_tick_intervals s @ [actual_interval]
                  in if length appended > 20 then tl appended else appended)
             | None \<Rightarrow> self_tick_intervals s);
          (g_s_next, g_e_next, g_e_curr) =
            estimate_green_window_from_countdown t0_in current_state_in count_down_in
              (500 * avg_tick_duration tick_intervals)
      in s\<lparr>self_tick_intervals := tick_intervals,
            self_last_cd_tick := Some count_down_in,
            self_last_tick_time := Some t0_in,
            self_g_s_next := g_s_next, self_g_e_next := g_e_next, self_g_e_curr := g_e_curr\<rparr>)"

text \<open>
  \<^verbatim>\<open>Core\<close>: the state after the cycle and what the cycle wrote (\<open>None\<close>: nothing).
\<close>

definition gwe_Core :: "gwe_state \<Rightarrow> gwe_inputs \<Rightarrow> gwe_state \<times> gwe_outputs option" where
  "gwe_Core s inp =
     (case (in_Intersection_ID_matched inp, in_IntersectionID_SPaT inp) of
        (Some intersection_matched, Some intersection_spat) \<Rightarrow>
          if intersection_matched \<noteq> intersection_spat then (s, None)
          else
            (let t0_in = seconds_of (in_t0 inp);
                 current_state_in = state_name_to_number (in_current_state inp);
                 count_down_in = py_int (in_countdown inp);
                 s1 = (if \<not> has_last_cd_tick s
                       then s\<lparr>has_last_cd_tick := True, self_last_cd_tick := None,
                              self_last_tick_time := Some t0_in, self_tick_intervals := []\<rparr>
                       else s);
                 s2 = (if Some count_down_in \<noteq> self_last_cd_tick s1
                       then on_new_tick s1 t0_in current_state_in count_down_in
                       else s1)
             in case (self_g_e_curr s2, self_g_s_next s2, self_g_e_next s2) of
                  (Some g_e_curr, Some g_s_next, Some g_e_next) \<Rightarrow>
                    (s2, Some \<lparr>g_e_curr_out = g_e_curr, g_s_next_out = g_s_next,
                               g_e_next_out = g_e_next, state_out = current_state_in\<rparr>)
                | _ \<Rightarrow> (s2, None))
      | _ \<Rightarrow> (s, None))"

fun gwe_run :: "gwe_state \<Rightarrow> gwe_inputs list \<Rightarrow> gwe_state" where
  "gwe_run s [] = s"
| "gwe_run s (inp # inps) = gwe_run (fst (gwe_Core s inp)) inps"

section \<open>The trajectory generator (DMTG.py)\<close>

text \<open>Lines 243 to 265 of \<^verbatim>\<open>compute_velocity_profile\<close>.\<close>

definition dmtg_kinematics :: "real \<Rightarrow> real \<Rightarrow> error + kinematics" where
  "dmtg_kinematics d_0 v_c =
    (let a_max = 1; d_max = 1; jerk_max = 1;
         v_limit = 5633 / 100; v_coast = 1287 / 100;
         v_c_ms = v_c * (5 / 18);
         v_limit_ms = v_limit * (5 / 18);
         v_coast_ms = v_coast * (5 / 18)
     in and_then (py_div (2 * a_max) (v_limit_ms - v_c_ms)) (\<lambda>term1p.
        and_then (py_div (2 * jerk_max) (v_limit_ms - v_c_ms)) (\<lambda>arg2p.
        let term2p = np_sqrt arg2p in
        and_then (py_div (2 * a_max) (v_c_ms - v_coast_ms)) (\<lambda>term1q.
        and_then (py_div (2 * jerk_max) (v_c_ms - v_coast_ms)) (\<lambda>arg2q.
        let term2q = np_sqrt arg2q;
            p = py_min term1p term2p;
            q = py_min term1q term2q in
        and_then (py_div d_0 v_c_ms) (\<lambda>t_cr.
        and_then (py_div (v_c_ms * pi) (2 * p)) (\<lambda>e1.
        and_then (py_div (d_0 - e1) v_limit_ms) (\<lambda>e2.
        and_then (py_div pi (2 * p)) (\<lambda>e3.
        and_then (py_div (v_c_ms * pi) (2 * q)) (\<lambda>l1.
        and_then (py_div (d_0 - l1) v_coast_ms) (\<lambda>l2.
        and_then (py_div pi (2 * q)) (\<lambda>l3.
        Inr \<lparr>k_a_max = a_max, k_d_max = d_max, k_jerk_max = jerk_max,
             k_v_limit = v_limit, k_v_coast = v_coast,
             k_v_c_ms = v_c_ms, k_v_limit_ms = v_limit_ms, k_v_coast_ms = v_coast_ms,
             k_p = p, k_q = q, k_t_cr = t_cr, k_t_e = e2 + e3, k_t_l = l2 + l3\<rparr>))))))))))))"

text \<open>Lines 268 to 273 of \<^verbatim>\<open>compute_velocity_profile\<close>.\<close>

definition dmtg_gamma :: "real \<Rightarrow> real \<Rightarrow> real \<Rightarrow> real \<Rightarrow> real list list" where
  "dmtg_gamma t_0 g_e_curr g_s_next g_e_next =
     (if g_e_curr = - 1 then [[g_s_next, g_e_next]]
      else [[t_0, g_e_curr], [g_s_next, g_e_next]])"

text \<open>
  The piecewise target velocity \<^verbatim>\<open>f\<close> of Scenario 2. A chained comparison and an
  \<^verbatim>\<open>elif\<close> evaluate a quotient only when they are reached.
\<close>

definition f ::
  "seconds \<Rightarrow> speed \<Rightarrow> speed \<Rightarrow> speed \<Rightarrow> rate \<Rightarrow> rate \<Rightarrow> seconds \<Rightarrow> metres \<Rightarrow> seconds \<Rightarrow> seconds
     \<Rightarrow> error + speed" where
  "f t v_c v_h v_d m n t_1 d_0 t_2 t_3 =
     and_then (if 0 \<le> t then and_then (py_div pi (2 * m)) (\<lambda>b. Inr (t \<le> b)) else Inr False)
       (\<lambda>first_phase.
     if first_phase then Inr (v_h - v_d * cos (m * t))
     else if t \<le> t_1 then
       and_then (py_div m n) (\<lambda>mn.
       and_then (py_div pi n) (\<lambda>pn.
       Inr (v_h - mn * v_d * cos (n * (t + pn - t_1)))))
     else
       and_then (py_div d_0 v_h) (\<lambda>dv.
       if t \<le> dv then and_then (py_div m n) (\<lambda>mn. Inr (v_h + mn * v_d))
       else if t \<le> t_2 then
         and_then (py_div m n) (\<lambda>mn.
         and_then (py_div (3 * pi) (2 * n)) (\<lambda>pn.
         Inr (v_h - mn * v_d * cos (n * (t + pn - t_2)))))
       else if t \<le> t_3 then Inr (v_h - v_d * cos (m * (t - t_3)))
       else Inr v_c))"

text \<open>
  \<^verbatim>\<open>calculate_scen2_t_arr\<close>: the loop that collects the starts of the overlaps, then
  their minimum, or \<^verbatim>\<open>None\<close> when there is none.
\<close>

fun scen2_intersections :: "real \<Rightarrow> real \<Rightarrow> real list list \<Rightarrow> real list" where
  "scen2_intersections t_e t_cr [] = []"
| "scen2_intersections t_e t_cr ([start, stop] # rest) =
     (let overlap_start = max t_e start;
          overlap_end = min t_cr stop
      in if overlap_start < overlap_end
         then overlap_start # scen2_intersections t_e t_cr rest
         else scen2_intersections t_e t_cr rest)"
| "scen2_intersections t_e t_cr (_ # rest) = scen2_intersections t_e t_cr rest"

definition calculate_scen2_t_arr :: "real \<Rightarrow> real \<Rightarrow> real list list \<Rightarrow> real option" where
  "calculate_scen2_t_arr t_e t_cr gamma =
     (let intersections = scen2_intersections t_e t_cr gamma
      in if intersections \<noteq> [] then Some (Min (set intersections)) else None)"

fun scen4_intersections :: "real \<Rightarrow> real \<Rightarrow> real list list \<Rightarrow> real list" where
  "scen4_intersections t_l t_cr [] = []"
| "scen4_intersections t_l t_cr ([start, stop] # rest) =
     (let overlap_start = max t_cr start;
          overlap_end = min t_l stop
      in if overlap_start < overlap_end
         then overlap_start # scen4_intersections t_l t_cr rest
         else scen4_intersections t_l t_cr rest)"
| "scen4_intersections t_l t_cr (_ # rest) = scen4_intersections t_l t_cr rest"

definition calculate_scen4_t_arr :: "real \<Rightarrow> real \<Rightarrow> real list list \<Rightarrow> real option" where
  "calculate_scen4_t_arr t_l t_cr gamma =
     (let intersections = scen4_intersections t_l t_cr gamma
      in if intersections \<noteq> [] then Some (Min (set intersections)) else None)"

text \<open>The piecewise target velocity \<^verbatim>\<open>g\<close> of Scenario 3.\<close>

definition g :: "seconds \<Rightarrow> speed \<Rightarrow> seconds \<Rightarrow> seconds \<Rightarrow> seconds \<Rightarrow> rate \<Rightarrow> error + speed" where
  "g t v_c t_arr g_next_s t_5 m =
     (if 0 \<le> t \<and> t < t_arr then
        (let v = v_c / 2 + (v_c / 2) * cos (m * t)
         in and_then (py_div pi m) (\<lambda>b. Inr (if t > b then 0 else v)))
      else if t_arr \<le> t \<and> t < g_next_s then Inr 0
      else if g_next_s \<le> t \<and> t < t_5 then Inr (v_c / 2 + (v_c / 2) * cos (m * (t - t_5)))
      else Inr v_c)"

text \<open>The piecewise target velocity \<^verbatim>\<open>h\<close> of Scenario 4.\<close>

definition h ::
  "seconds \<Rightarrow> speed \<Rightarrow> speed \<Rightarrow> speed \<Rightarrow> rate \<Rightarrow> rate \<Rightarrow> seconds \<Rightarrow> metres \<Rightarrow> seconds \<Rightarrow> seconds
     \<Rightarrow> error + speed" where
  "h t v_c v_h v_d m n t_1 d_0 t_2 t_3 =
     and_then (if 0 \<le> t then and_then (py_div pi (2 * m)) (\<lambda>b. Inr (t \<le> b)) else Inr False)
       (\<lambda>first_phase.
     if first_phase then Inr (v_h - v_d * cos (m * t))
     else if t \<le> t_1 then
       and_then (py_div m n) (\<lambda>mn.
       and_then (py_div pi n) (\<lambda>pn.
       Inr (v_h - mn * v_d * cos (n * (t + pn - t_1)))))
     else
       and_then (py_div d_0 v_h) (\<lambda>dv.
       if t \<le> dv then and_then (py_div m n) (\<lambda>mn. Inr (v_h + mn * v_d))
       else if t \<le> t_2 then
         and_then (py_div m n) (\<lambda>mn.
         and_then (py_div (3 * pi) (2 * n)) (\<lambda>pn.
         Inr (v_h - mn * v_d * cos (n * (t + pn - t_2)))))
       else if t \<le> t_3 then Inr (v_h - v_d * cos (m * (t - t_3)))
       else Inr v_c))"

text \<open>
  \<^verbatim>\<open>calculate_n_scen2and4\<close>. The three quotients are taken under the guard
  \<^verbatim>\<open>abs(v_d) > 1e-6\<close> and the fourth under \<^verbatim>\<open>abs(d_0) > 1e-6\<close>, so no divisor is zero;
  \<^verbatim>\<open>x ** 0.5\<close> has a positive base at the only call (\<^verbatim>\<open>jerk_max = 1.0\<close>) and is the square
  root. \<^verbatim>\<open>min\<close> of the empty list raises \<^verbatim>\<open>ValueError\<close>.
\<close>

definition calculate_n_scen2and4 ::
  "real \<Rightarrow> real \<Rightarrow> real \<Rightarrow> speed \<Rightarrow> speed \<Rightarrow> metres \<Rightarrow> error + rate" where
  "calculate_n_scen2and4 a_max d_max jerk_max v_d v_h d_0 =
     (let valid_n_candidates =
            (if \<bar>v_d\<bar> > 1 / 10 ^ 6 then
               (let n_acc = a_max / \<bar>v_d\<bar>;
                    n_dec = d_max / \<bar>v_d\<bar>;
                    n_jerk = sqrt (jerk_max / \<bar>v_d\<bar>)
                in [n_acc, n_dec, n_jerk])
             else []);
          n_lower_bound =
            (if \<bar>v_h\<bar> > 1 / 10 ^ 6 \<and> \<bar>d_0\<bar> > 1 / 10 ^ 6 then (pi / 2 - 1) * (v_h / d_0)
             else 1 / 100)
      in if valid_n_candidates = [] then Inl ValueError
         else Inr (max (Min (set valid_n_candidates)) n_lower_bound))"

text \<open>
  \<^verbatim>\<open>calculate_m_scen2and4\<close>. The last quotient is taken only when
  \<^verbatim>\<open>abs(denominator) >= safe_eps\<close>.
\<close>

definition calculate_m_scen2and4 :: "real \<Rightarrow> real \<Rightarrow> real \<Rightarrow> error + real" where
  "calculate_m_scen2and4 n d_0 v_h =
     (let pi_over_2 = pi / 2;
          safe_eps = 1 / 10 ^ 6;
          numerator_part1 = - pi_over_2 * n
      in and_then (py_div d_0 v_h) (\<lambda>dv.
         let inside_sqrt = (pi_over_2 * n)\<^sup>2 - 4 * n\<^sup>2 * ((pi_over_2 - 1) - dv * n);
             sqrt_term = (if inside_sqrt < 0 then 0 else sqrt inside_sqrt);
             numerator = numerator_part1 - sqrt_term;
             denominator = 2 * ((pi_over_2 - 1) - dv * n)
         in if \<bar>denominator\<bar> < safe_eps then Inr (10 ^ 6)
            else Inr (numerator / denominator)))"

definition calculate_m_scen3 :: "real \<Rightarrow> real \<Rightarrow> error + real" where
  "calculate_m_scen3 d_0 v_h = and_then (py_div v_h d_0) (\<lambda>x. Inr (x * pi))"

definition calculate_n_scen3 :: "real \<Rightarrow> real \<Rightarrow> error + real" where
  "calculate_n_scen3 d_0 v_h = and_then (py_div v_h d_0) (\<lambda>x. Inr (x * pi))"

text \<open>A \<^verbatim>\<open>for\<close> loop that appends one sample per step and stops at the first exception.\<close>

fun for_each :: "('a \<Rightarrow> error + 'b) \<Rightarrow> 'a list \<Rightarrow> error + 'b list" where
  "for_each body [] = Inr []"
| "for_each body (x # xs) =
     and_then (body x) (\<lambda>y. and_then (for_each body xs) (\<lambda>ys. Inr (y # ys)))"

text \<open>
  Lines 275 to 367 of \<^verbatim>\<open>compute_velocity_profile\<close>: the branch on the scenario label.
  \<open>Inr None\<close> is a bare \<^verbatim>\<open>return\<close> inside a branch (the function returns \<^verbatim>\<open>None\<close>);
  \<open>Inr (Some (profile, t_end))\<close> is control reaching line 369 with these two locals, where
  \<open>t_end = None\<close> says that no branch has assigned \<^verbatim>\<open>t_end\<close>. The test
  \<^verbatim>\<open>g_s_next is None\<close> of Scenario 3 cannot succeed, \<^verbatim>\<open>Core\<close> having returned before on
  such an input.
\<close>

definition synthesize ::
  "seconds \<Rightarrow> kinematics \<Rightarrow> real list list \<Rightarrow> seconds \<Rightarrow> metres \<Rightarrow> seconds \<Rightarrow> string \<Rightarrow>
   error + ((seconds \<times> speed) list \<times> seconds option) option" where
  "synthesize dt k gamma_intervals t_0 d_0 g_s_next scenario =
     (if scenario = ''Scenario 1'' then
        (let t_end = t_0 + 30;
             profile =
               map (\<lambda>t. let v = k_v_c_ms k * (36 / 10);
                            v = (if v \<ge> k_v_limit k then k_v_limit k else v)
                        in (t, v))
                 (np_arange t_0 (t_end + dt) dt)
         in Inr (Some (profile, Some t_end)))
      else if scenario = ''Scenario 2'' \<or> scenario = ''Scenario 4'' then
        (let t_arr =
               (if scenario = ''Scenario 2''
                then calculate_scen2_t_arr (k_t_e k) (k_t_cr k) gamma_intervals
                else calculate_scen4_t_arr (k_t_l k) (k_t_cr k) gamma_intervals)
         in case t_arr of
              None \<Rightarrow> Inr None
            | Some t_arr \<Rightarrow>
                and_then (py_div d_0 t_arr) (\<lambda>v_h.
                let v_d = v_h - k_v_c_ms k in
                and_then (calculate_n_scen2and4 (k_a_max k) (k_d_max k) (k_jerk_max k) v_d v_h d_0)
                  (\<lambda>n.
                and_then (calculate_m_scen2and4 n d_0 v_h) (\<lambda>m.
                and_then (py_div pi (2 * m)) (\<lambda>pm.
                and_then (py_div pi (2 * n)) (\<lambda>pn.
                and_then (py_div d_0 v_h) (\<lambda>dv.
                let t_1 = pm + pn;
                    t_2 = dv + pn;
                    t_3 = dv + pm + pn;
                    t_end = t_3 + 1 in
                and_then
                  (for_each
                     (\<lambda>t. and_then
                             (if scenario = ''Scenario 2''
                              then f (t - t_0) (k_v_c_ms k) v_h v_d m n t_1 d_0 t_2 t_3
                              else h (t - t_0) (k_v_c_ms k) v_h v_d m n t_1 d_0 t_2 t_3)
                             (\<lambda>v. Inr (t, v * (36 / 10))))
                     (np_arange t_0 (t_end + dt) dt))
                  (\<lambda>profile. Inr (Some (profile, Some t_end))))))))))
      else if scenario = ''Scenario 3'' then
        (if k_v_c_ms k \<le> k_v_coast_ms k then Inr None
         else
           (let v_h = k_v_c_ms k / 2 in
            and_then (py_div d_0 v_h) (\<lambda>t_arr.
            and_then (calculate_n_scen3 d_0 v_h) (\<lambda>n.
            and_then (calculate_m_scen3 d_0 v_h) (\<lambda>m.
            and_then (py_div pi (2 * n)) (\<lambda>pn.
            let t_4 = g_s_next + pn in
            and_then (py_div pi (m * 2)) (\<lambda>pm.
            let t_5 = t_4 + pm;
                t_end = t_5 + 1 in
            and_then
              (for_each
                 (\<lambda>t. and_then (g (t - t_0) (k_v_c_ms k) t_arr g_s_next t_5 m)
                         (\<lambda>v. let v = v * (36 / 10);
                                  v = (if v \<ge> k_v_limit k then k_v_limit k else v)
                              in Inr (t, v)))
                 (np_arange t_0 (t_end + dt) dt))
              (\<lambda>profile. Inr (Some (profile, Some t_end))))))))))
      else Inr (Some ([], None)))"

text \<open>
  \<^verbatim>\<open>compute_velocity_profile\<close>. \<^verbatim>\<open>Core\<close> passes \<^verbatim>\<open>v_c\<close> on unchecked, so it is an option
  here and the first product raises \<^verbatim>\<open>TypeError\<close> on \<^verbatim>\<open>None\<close>. \<open>sink_fails\<close> says whether
  \<^verbatim>\<open>save_profile_to_file\<close> (a directory and a file on disk) raises. The last line reads
  \<^verbatim>\<open>t_end\<close>, which raises \<^verbatim>\<open>UnboundLocalError\<close> when no branch has assigned it.
\<close>

definition compute_velocity_profile ::
  "seconds \<Rightarrow> bool \<Rightarrow> seconds \<Rightarrow> metres \<Rightarrow> speed option \<Rightarrow> real \<Rightarrow> real \<Rightarrow> real \<Rightarrow> string \<Rightarrow>
   error + ((seconds \<times> speed) list \<times> seconds \<times> seconds) option" where
  "compute_velocity_profile dt sink_fails t_0 d_0 v_c g_e_curr g_s_next g_e_next scenario =
     (case v_c of
        None \<Rightarrow> Inl TypeError
      | Some v_c \<Rightarrow>
          and_then (dmtg_kinematics d_0 v_c) (\<lambda>k.
          let gamma_intervals = dmtg_gamma t_0 g_e_curr g_s_next g_e_next in
          and_then (synthesize dt k gamma_intervals t_0 d_0 g_s_next scenario) (\<lambda>r.
          case r of
            None \<Rightarrow> Inr None
          | Some (profile, t_end) \<Rightarrow>
              if sink_fails then Inl OSError
              else (case t_end of
                      None \<Rightarrow> Inl UnboundLocalError
                    | Some t_end \<Rightarrow> Inr (Some (profile, t_0, t_0 + t_end))))))"

record tg_state =
  self_precomputed_velocity_profile :: "(real \<times> real) list option"
  self_profile_start_time :: "real option"
  self_profile_end_time :: "real option"
  self_dt :: real
  self_last_scenario :: "string option"

definition Birth :: tg_state where
  "Birth =
     \<lparr>self_precomputed_velocity_profile = None, self_profile_start_time = None,
      self_profile_end_time = None, self_dt = 1 / 10, self_last_scenario = None\<rparr>"

record tg_inputs =
  tg_scenario :: "string option"
  tg_d_0 :: "real option"
  tg_v_c :: "real option"
  tg_t_0 :: int
  tg_g_e_curr :: "real option"
  tg_g_s_next :: "real option"
  tg_g_e_next :: "real option"
  tg_sink_fails :: bool

record tg_outputs =
  v_t_kmh :: real
  v_t_mph :: real

text \<open>Lines 87 to 94 of \<^verbatim>\<open>Core\<close>: the sample of the cached profile for the time \<open>t_0\<close>.\<close>

definition lookup :: "tg_state \<Rightarrow> real \<Rightarrow> error + real" where
  "lookup s t_0 =
     (case (self_precomputed_velocity_profile s, self_profile_start_time s,
            self_profile_end_time s) of
        (Some profile, Some profile_start_time, Some profile_end_time) \<Rightarrow>
          if t_0 \<le> profile_start_time then
            and_then (py_index profile 0) (\<lambda>sample. Inr (snd sample))
          else if t_0 \<ge> profile_end_time then
            and_then (py_index profile (- 1)) (\<lambda>sample. Inr (snd sample))
          else
            and_then (py_div (t_0 - profile_start_time) (self_dt s)) (\<lambda>x.
            let idx = py_int x;
                idx = min idx (int (length profile) - 1)
            in and_then (py_index profile idx) (\<lambda>sample. Inr (snd sample)))
      | _ \<Rightarrow> Inl TypeError)"

text \<open>
  \<^verbatim>\<open>Core\<close>: the state after the cycle, and either the exception that leaves \<^verbatim>\<open>Core\<close> or
  what the cycle wrote (\<open>None\<close>: nothing). The two assignments of lines 78 and 79 stand
  behind the \<^verbatim>\<open>return\<close> of line 74, inside the same \<^verbatim>\<open>if\<close> (their own \<^verbatim>\<open>if\<close> is a
  comment), so they are never executed and \<^verbatim>\<open>last_scenario\<close> is never written. The triple
  assignment of line 82 unpacks the result of \<^verbatim>\<open>compute_velocity_profile\<close>: on \<^verbatim>\<open>None\<close>
  it raises \<^verbatim>\<open>TypeError\<close> before any attribute is written.
\<close>

definition tg_Core :: "tg_state \<Rightarrow> tg_inputs \<Rightarrow> tg_state \<times> (error + tg_outputs option)" where
  "tg_Core s inp =
     (case (tg_scenario inp, tg_d_0 inp, tg_g_e_curr inp, tg_g_s_next inp, tg_g_e_next inp) of
        (Some scenario, Some d_0, Some g_e_curr, Some g_s_next, Some g_e_next) \<Rightarrow>
          (let t_0 = seconds_of (tg_t_0 inp);
               computed =
                 (if self_precomputed_velocity_profile s = None then
                    (case compute_velocity_profile (self_dt s) (tg_sink_fails inp)
                            t_0 d_0 (tg_v_c inp) g_e_curr g_s_next g_e_next scenario of
                       Inl e \<Rightarrow> Inl e
                     | Inr None \<Rightarrow> Inl TypeError
                     | Inr (Some (profile, start_time, end_time)) \<Rightarrow>
                         Inr (s\<lparr>self_precomputed_velocity_profile := Some profile,
                                self_profile_start_time := Some start_time,
                                self_profile_end_time := Some end_time\<rparr>))
                  else Inr s)
           in case computed of
                Inl e \<Rightarrow> (s, Inl e)
              | Inr s' \<Rightarrow>
                  (case lookup s' t_0 of
                     Inl e \<Rightarrow> (s', Inl e)
                   | Inr v_output \<Rightarrow>
                       (s', Inr (Some \<lparr>v_t_kmh = v_output,
                                       v_t_mph = v_output / (1609 / 1000)\<rparr>))))
      | _ \<Rightarrow> (s, Inr None))"

fun tg_run :: "tg_state \<Rightarrow> tg_inputs list \<Rightarrow> tg_state" where
  "tg_run s [] = s"
| "tg_run s (inp # inps) = tg_run (fst (tg_Core s inp)) inps"

text \<open>
  \<open>computed_by s inp profile start_time end_time\<close>: the cycle \<open>inp\<close>, met in the state \<open>s\<close>,
  has all the inputs \<^verbatim>\<open>Core\<close> asks for, and \<^verbatim>\<open>compute_velocity_profile\<close> returns the
  triple \<open>(profile, start_time, end_time)\<close> on them.
\<close>

definition computed_by ::
  "tg_state \<Rightarrow> tg_inputs \<Rightarrow> (seconds \<times> speed) list \<Rightarrow> seconds \<Rightarrow> seconds \<Rightarrow> bool" where
  "computed_by s inp profile start_time end_time \<longleftrightarrow>
     (case (tg_scenario inp, tg_d_0 inp, tg_g_e_curr inp, tg_g_s_next inp, tg_g_e_next inp) of
        (Some scenario, Some d_0, Some g_e_curr, Some g_s_next, Some g_e_next) \<Rightarrow>
          compute_velocity_profile (self_dt s) (tg_sink_fails inp) (seconds_of (tg_t_0 inp)) d_0
            (tg_v_c inp) g_e_curr g_s_next g_e_next scenario
          = Inr (Some (profile, start_time, end_time))
      | _ \<Rightarrow> False)"

section \<open>Basic facts about the conventions\<close>

lemma and_then_Inl [simp]: "and_then (Inl e) k = Inl e"
  by (simp add: and_then_def)

lemma and_then_Inr [simp]: "and_then (Inr x) k = k x"
  by (simp add: and_then_def)

lemma py_div_zero [simp]: "py_div a 0 = Inl ZeroDivisionError"
  by (simp add: py_div_def)

lemma py_div_nonzero: "b \<noteq> 0 \<Longrightarrow> py_div a b = Inr (a / b)"
  by (simp add: py_div_def)

lemma seconds_of_0 [simp]: "seconds_of 0 = 0"
  by (simp add: seconds_of_def)

lemma seconds_of_tenth: "seconds_of 100000 = 1 / 10"
  by (simp add: seconds_of_def)

lemma py_int_numeral [simp]: "py_int (numeral n) = numeral n"
  by (simp add: py_int_def)

section \<open>The kinematic block\<close>

text \<open>Neither rate parameter is zero: the quotient is not, and a square root of it is positive.\<close>

lemma py_min_rate_nonzero: "x \<noteq> 0 \<Longrightarrow> py_min (2 / x) (np_sqrt (2 / x)) \<noteq> 0"
  by (auto simp: py_min_def np_sqrt_def not_less)

lemma kinematics_agree: "dmtg_kinematics d_0 v_c = dmsi_kinematics d_0 v_c"
  by (simp add: dmtg_kinematics_def dmsi_kinematics_def)

lemma gamma_agree: "dmtg_gamma t_0 g_e_curr g_s_next g_e_next = dmsi_gamma t_0 g_e_curr g_s_next g_e_next"
  by (simp add: dmtg_gamma_def dmsi_gamma_def)

text \<open>
  The block raises only at the three speeds where one of its divisors is zero: the
  speed limit, the coasting speed and a standstill.
\<close>

lemma dmsi_kinematics_Inr:
  assumes "v \<noteq> 0" and "v \<noteq> 5633 / 100" and "v \<noteq> 1287 / 100"
  shows "\<exists>k. dmsi_kinematics d v = Inr k \<and> k_v_c_ms k = v * (5 / 18)
           \<and> k_v_limit_ms k = 5633 / 100 * (5 / 18) \<and> k_v_coast_ms k = 1287 / 100 * (5 / 18)
           \<and> k_v_limit k = 5633 / 100
           \<and> k_a_max k = 1 \<and> k_d_max k = 1 \<and> k_jerk_max k = 1
           \<and> k_t_cr k = d / (v * (5 / 18))"
proof -
  let ?x = "5633 / 100 * (5 / 18) - v * (5 / 18)"
  let ?y = "v * (5 / 18) - 1287 / 100 * (5 / 18)"
  have x: "?x \<noteq> 0" and y: "?y \<noteq> 0"
    using assms by simp_all
  have p: "py_min (2 / ?x) (np_sqrt (2 / ?x)) \<noteq> 0"
    using x by (rule py_min_rate_nonzero)
  have q: "py_min (2 / ?y) (np_sqrt (2 / ?y)) \<noteq> 0"
    using y by (rule py_min_rate_nonzero)
  show ?thesis
    using assms(1) x y p q
    by (simp add: dmsi_kinematics_def Let_def py_div_nonzero)
qed

lemma dmsi_kinematics_zero_speed: "dmsi_kinematics d 0 = Inl ZeroDivisionError"
  by (simp add: dmsi_kinematics_def Let_def py_div_nonzero)

lemma dmsi_kinematics_at_limit: "dmsi_kinematics d (5633 / 100) = Inl ZeroDivisionError"
  by (simp add: dmsi_kinematics_def Let_def)

lemma dmsi_kinematics_at_coast: "dmsi_kinematics d (1287 / 100) = Inl ZeroDivisionError"
  by (simp add: dmsi_kinematics_def Let_def py_div_nonzero)

lemma dmtg_kinematics_Inr:
  assumes "v \<noteq> 0" and "v \<noteq> 5633 / 100" and "v \<noteq> 1287 / 100"
  shows "\<exists>k. dmtg_kinematics d v = Inr k \<and> k_v_c_ms k = v * (5 / 18)
           \<and> k_v_limit_ms k = 5633 / 100 * (5 / 18) \<and> k_v_coast_ms k = 1287 / 100 * (5 / 18)
           \<and> k_v_limit k = 5633 / 100
           \<and> k_a_max k = 1 \<and> k_d_max k = 1 \<and> k_jerk_max k = 1
           \<and> k_t_cr k = d / (v * (5 / 18))"
  unfolding kinematics_agree using assms by (rule dmsi_kinematics_Inr)

section \<open>The scenario identifier: claims C1, C5, C7 and C8\<close>

lemma cruise_in_green_iff:
  "cruise_in_green gamma t_cr \<longleftrightarrow> (\<exists>s e. [s, e] \<in> set gamma \<and> s \<le> t_cr \<and> t_cr < e)"
  by (induction gamma t_cr rule: cruise_in_green.induct) auto

lemma early_in_green_iff:
  "early_in_green gamma t_e t_cr \<longleftrightarrow> (\<exists>s e. [s, e] \<in> set gamma \<and> max t_e s < min t_cr e)"
  by (induction gamma t_e t_cr rule: early_in_green.induct) auto

lemma overlap_found_iff:
  "overlap_found gamma t_cr t_l \<longleftrightarrow> (\<exists>s e. [s, e] \<in> set gamma \<and> max t_cr s < min t_l e)"
  by (induction gamma t_cr t_l rule: overlap_found.induct) auto

text \<open>
  Claim C1 asks that a speed outside \<open>(0, v_limit]\<close>, a standstill in particular, is
  rejected as an invalid speed before any quotient of the kinematic block is taken. In
  \<^verbatim>\<open>DMSI.Core\<close> the block (lines 92 to 102) comes before the speed test (lines 105 to 114),
  and the test is \<^verbatim>\<open>v_c_ms < 0\<close>, so at a standstill the quotient \<^verbatim>\<open>d_0_in / v_c_ms\<close> is
  taken with a zero divisor and \<^verbatim>\<open>Core\<close> is left by \<^verbatim>\<open>ZeroDivisionError\<close>, with nothing
  written to the scenario output.
\<close>

theorem si_Core_zero_speed_raises:
  "si_Core \<lparr>si_d_0 = Some 100, si_v_c_in = Some 0, si_t_0 = 0, si_g_e_curr = Some (- 1),
            si_g_s_next = Some 10, si_g_e_next = Some 60\<rparr> = Inl ZeroDivisionError"
  by (simp add: si_Core_def dmsi_kinematics_zero_speed)

text \<open>
  Claim C5: \<^verbatim>\<open>identify_scenario\<close> is total and returns exactly one of the four scenarios,
  the first that matches in the order: Scenario 1 if some interval \<open>[s, e)\<close> has
  \<open>s \<le> t_cr < e\<close>; else Scenario 2 if some interval has \<open>max t_e s < min t_cr e\<close>; else
  Scenario 3 if no interval has \<open>max t_cr s < min t_l e\<close>; else Scenario 4.
\<close>

theorem identify_scenario_first_match:
  "identify_scenario gamma t_cr t_e t_l =
     (if \<exists>s e. [s, e] \<in> set gamma \<and> s \<le> t_cr \<and> t_cr < e then (''Scenario 1'', 1)
      else if \<exists>s e. [s, e] \<in> set gamma \<and> max t_e s < min t_cr e then (''Scenario 2'', 2)
      else if \<not> (\<exists>s e. [s, e] \<in> set gamma \<and> max t_cr s < min t_l e) then (''Scenario 3'', 3)
      else (''Scenario 4'', 4))"
  unfolding identify_scenario_def cruise_in_green_iff early_in_green_iff overlap_found_iff
  by (rule refl)

text \<open>
  Claim C7: in every call of \<^verbatim>\<open>DMSI.Core\<close> gamma is the one interval
  \<open>(g_s_next, g_e_next)\<close> when \<open>g_e_curr\<close> is the sentinel \<open>-1\<close>, and otherwise the two
  intervals \<open>(t_0, g_e_curr)\<close> and \<open>(g_s_next, g_e_next)\<close>, with the absolute time \<open>t_0\<close> of
  the cycle beside the duration \<open>g_e_curr\<close>, uncorrected; and in every call that reaches
  the classification these are the intervals handed to \<^verbatim>\<open>identify_scenario\<close>.
\<close>

theorem classify_gamma_literal:
  assumes "dmsi_kinematics d_0 v_c = Inr k"
      and "0 \<le> k_v_c_ms k" and "k_v_c_ms k \<le> k_v_limit_ms k"
  shows "dmsi_gamma (seconds_of t) g_e_curr g_s_next g_e_next =
           (if g_e_curr = - 1 then [[g_s_next, g_e_next]]
            else [[seconds_of t, g_e_curr], [g_s_next, g_e_next]]) \<and>
         si_Core \<lparr>si_d_0 = Some d_0, si_v_c_in = Some v_c, si_t_0 = t,
                   si_g_e_curr = Some g_e_curr, si_g_s_next = Some g_s_next,
                   si_g_e_next = Some g_e_next\<rparr> =
         (let gamma = (if g_e_curr = - 1 then [[g_s_next, g_e_next]]
                       else [[seconds_of t, g_e_curr], [g_s_next, g_e_next]]);
              r = identify_scenario gamma (k_t_cr k) (k_t_e k) (k_t_l k)
          in Inr \<lparr>scenario_out = Some (fst r), scenario_n_out = Some (snd r),
                  d_0_out = Some d_0\<rparr>)"
proof
  show "dmsi_gamma (seconds_of t) g_e_curr g_s_next g_e_next =
           (if g_e_curr = - 1 then [[g_s_next, g_e_next]]
            else [[seconds_of t, g_e_curr], [g_s_next, g_e_next]])"
    by (simp add: dmsi_gamma_def)
next
  from assms(2,3) have valid: "\<not> k_v_c_ms k < 0" "\<not> k_v_c_ms k > k_v_limit_ms k"
    by simp_all
  show "si_Core \<lparr>si_d_0 = Some d_0, si_v_c_in = Some v_c, si_t_0 = t,
                   si_g_e_curr = Some g_e_curr, si_g_s_next = Some g_s_next,
                   si_g_e_next = Some g_e_next\<rparr> =
         (let gamma = (if g_e_curr = - 1 then [[g_s_next, g_e_next]]
                       else [[seconds_of t, g_e_curr], [g_s_next, g_e_next]]);
              r = identify_scenario gamma (k_t_cr k) (k_t_e k) (k_t_l k)
          in Inr \<lparr>scenario_out = Some (fst r), scenario_n_out = Some (snd r),
                  d_0_out = Some d_0\<rparr>)"
    using assms(1) valid
    by (simp add: si_Core_def dmsi_gamma_def Let_def split_beta)
qed

theorem classify_gamma_literal_witness:
  "dmsi_gamma (seconds_of 0) 20 120 170 = [[0, 20], [120, 170]] \<and>
   si_Core \<lparr>si_d_0 = Some 100, si_v_c_in = Some 30, si_t_0 = 0,
            si_g_e_curr = Some 20, si_g_s_next = Some 120, si_g_e_next = Some 170\<rparr> =
     Inr \<lparr>scenario_out = Some ''Scenario 1'', scenario_n_out = Some 1, d_0_out = Some 100\<rparr>"
proof -
  obtain k where k: "dmsi_kinematics 100 30 = Inr k"
    and v: "k_v_c_ms k = 30 * (5 / 18)"
    and vl: "k_v_limit_ms k = 5633 / 100 * (5 / 18)"
    and tcr: "k_t_cr k = 100 / (30 * (5 / 18))"
    using dmsi_kinematics_Inr [of 30 100] by auto
  have a: "0 \<le> k_v_c_ms k" and b: "k_v_c_ms k \<le> k_v_limit_ms k"
    by (simp_all add: v vl)
  show ?thesis
    using classify_gamma_literal [OF k a b, of 0 20 120 170]
    by (simp add: identify_scenario_def tcr)
qed

text \<open>
  Claim C8: for every distance, speed, time and green window, the block of
  \<^verbatim>\<open>compute_velocity_profile\<close> that recomputes \<open>p\<close>, \<open>q\<close>, \<open>t_cr\<close>, \<open>t_e\<close>, \<open>t_l\<close> and the
  gamma intervals gives what the block of \<^verbatim>\<open>DMSI.Core\<close> gives: the same locals, or the
  same exception.
\<close>

theorem planner_recomputes_classifier_block:
  "dmtg_kinematics d_0 v_c = dmsi_kinematics d_0 v_c \<and>
   dmtg_gamma t_0 g_e_curr g_s_next g_e_next = dmsi_gamma t_0 g_e_curr g_s_next g_e_next"
  by (simp add: kinematics_agree gamma_agree)

section \<open>The green window estimator: claims C3, C6 and C9\<close>

lemma estimate_table:
  "estimate_green_window_from_countdown t0 c cd ngd =
     (if c \<in> {2, 3} then (Some (of_int cd * (1 / 10)), Some (of_int cd * (1 / 10) + ngd), Some (- 1))
      else if c \<in> {7, 8, 9} then
        (Some (of_int cd * (1 / 10) + 50), Some (of_int cd * (1 / 10) + 50 + ngd), Some (- 1))
      else if c \<in> {4, 5, 6} then
        (Some (of_int cd * (1 / 10) + 100), Some (of_int cd * (1 / 10) + 100 + ngd),
         Some (of_int cd * (1 / 10)))
      else (None, None, None))"
  by (simp add: estimate_green_window_from_countdown_def Let_def)

lemma on_new_tick_estimate:
  "(self_g_s_next (on_new_tick s t0 c cd), self_g_e_next (on_new_tick s t0 c cd),
    self_g_e_curr (on_new_tick s t0 c cd)) =
   estimate_green_window_from_countdown t0 c cd
     (500 * avg_tick_duration (self_tick_intervals (on_new_tick s t0 c cd)))"
  by (simp add: on_new_tick_def Let_def split_beta)

lemma on_new_tick_intervals:
  "self_tick_intervals (on_new_tick s t0 c cd) =
     (case self_last_tick_time s of
        Some last_tick_time \<Rightarrow>
          (let appended = self_tick_intervals s @ [t0 - last_tick_time]
           in if length appended > 20 then tl appended else appended)
      | None \<Rightarrow> self_tick_intervals s)"
  by (simp add: on_new_tick_def Let_def split_beta split: option.splits)

lemma on_new_tick_length:
  "length (self_tick_intervals s) \<le> 20 \<Longrightarrow>
   length (self_tick_intervals (on_new_tick s t0 c cd)) \<le> 20"
  by (auto simp: on_new_tick_def Let_def split_beta split: option.splits)

lemma gwe_Core_length:
  "length (self_tick_intervals s) \<le> 20 \<Longrightarrow>
   length (self_tick_intervals (fst (gwe_Core s inp))) \<le> 20"
  by (auto simp: gwe_Core_def Let_def on_new_tick_length split: option.splits)

lemma gwe_run_length:
  "length (self_tick_intervals s) \<le> 20 \<Longrightarrow> length (self_tick_intervals (gwe_run s inps)) \<le> 20"
  by (induction inps arbitrary: s) (simp_all add: gwe_Core_length)

text \<open>
  A cycle that passes the intersection test with the countdown already observed changes
  nothing and writes the cached estimate, if there is one.
\<close>

lemma gwe_Core_same_tick:
  assumes "has_last_cd_tick s" and "self_last_cd_tick s = Some (py_int (in_countdown inp))"
  shows "fst (gwe_Core s inp) = s"
    and "snd (gwe_Core s inp) =
           (if in_Intersection_ID_matched inp \<noteq> None \<and>
               in_Intersection_ID_matched inp = in_IntersectionID_SPaT inp
            then (case (self_g_e_curr s, self_g_s_next s, self_g_e_next s) of
                    (Some g_e_curr, Some g_s_next, Some g_e_next) \<Rightarrow>
                      Some \<lparr>g_e_curr_out = g_e_curr, g_s_next_out = g_s_next,
                            g_e_next_out = g_e_next,
                            state_out = state_name_to_number (in_current_state inp)\<rparr>
                  | _ \<Rightarrow> None)
            else None)"
  using assms by (auto simp: gwe_Core_def Let_def split: option.splits)

text \<open>
  A cycle that passes the intersection test with a countdown not observed before runs the
  body of the \<^verbatim>\<open>if\<close>, after creating the tick attributes when they do not exist yet.
\<close>

lemma gwe_Core_new_tick:
  assumes "in_Intersection_ID_matched inp = Some a" and "in_IntersectionID_SPaT inp = Some a"
      and "\<not> has_last_cd_tick s \<or> self_last_cd_tick s \<noteq> Some (py_int (in_countdown inp))"
  shows "gwe_Core s inp =
           (let s2 = on_new_tick
                       (if has_last_cd_tick s then s
                        else s\<lparr>has_last_cd_tick := True, self_last_cd_tick := None,
                               self_last_tick_time := Some (seconds_of (in_t0 inp)),
                               self_tick_intervals := []\<rparr>)
                       (seconds_of (in_t0 inp)) (state_name_to_number (in_current_state inp))
                       (py_int (in_countdown inp))
            in (s2, case (self_g_e_curr s2, self_g_s_next s2, self_g_e_next s2) of
                      (Some g_e_curr, Some g_s_next, Some g_e_next) \<Rightarrow>
                        Some \<lparr>g_e_curr_out = g_e_curr, g_s_next_out = g_s_next,
                              g_e_next_out = g_e_next,
                              state_out = state_name_to_number (in_current_state inp)\<rparr>
                    | _ \<Rightarrow> None))"
proof (cases "has_last_cd_tick s")
  case True
  with assms show ?thesis
    by (simp add: gwe_Core_def Let_def split: option.splits)
next
  case False
  with assms show ?thesis
    by (simp add: gwe_Core_def Let_def split: option.splits)
qed

text \<open>
  Two cycles evaluated: green with 200 ticks left on a fresh component, then dark.
\<close>

lemma number_of_green: "state_name_to_number ''protected-Movement-Allowed'' = 6"
  by (simp add: state_name_to_number_def strip_def is_space_def)

lemma number_of_dark: "state_name_to_number ''dark'' = 1"
  by (simp add: state_name_to_number_def strip_def is_space_def)

lemma first_green_cycle:
  "gwe_Core gwe_init
     \<lparr>in_Intersection_ID_matched = Some 1, in_IntersectionID_SPaT = Some 1, in_t0 = 0,
      in_current_state = ''protected-Movement-Allowed'', in_countdown = 200\<rparr> =
   (\<lparr>has_last_cd_tick = True, self_last_cd_tick = Some 200, self_last_tick_time = Some 0,
     self_tick_intervals = [0],
     self_g_e_curr = Some 20, self_g_s_next = Some 120, self_g_e_next = Some 170\<rparr>,
    Some \<lparr>g_e_curr_out = 20, g_s_next_out = 120, g_e_next_out = 170, state_out = 6\<rparr>)"
  by (simp add: gwe_Core_def gwe_init_def number_of_green on_new_tick_def estimate_table
      avg_tick_duration_def Let_def)

lemma dark_cycle:
  "gwe_Core
     \<lparr>has_last_cd_tick = True, self_last_cd_tick = Some 200, self_last_tick_time = Some 0,
      self_tick_intervals = [0],
      self_g_e_curr = Some 20, self_g_s_next = Some 120, self_g_e_next = Some 170\<rparr>
     \<lparr>in_Intersection_ID_matched = Some 1, in_IntersectionID_SPaT = Some 1, in_t0 = 100000,
      in_current_state = ''dark'', in_countdown = 199\<rparr> =
   (\<lparr>has_last_cd_tick = True, self_last_cd_tick = Some 199, self_last_tick_time = Some (1 / 10),
     self_tick_intervals = [0, 1 / 10],
     self_g_e_curr = None, self_g_s_next = None, self_g_e_next = None\<rparr>,
    None)"
  by (simp add: gwe_Core_def number_of_dark on_new_tick_def estimate_table seconds_of_tenth
      avg_tick_duration_def Let_def)

text \<open>
  Claim C3 says that an ingest with an unavailable, dark or unrecognized phase retains the
  cached estimate. It does not when the countdown has changed: the green cycle above
  leaves \<open>g_e_curr = 20\<close> in the cache, and the dark cycle that follows it, one tick
  later, leaves \<^verbatim>\<open>None\<close>.
\<close>

theorem unsupported_phase_clears_estimate:
  "(self_g_e_curr
      (gwe_run gwe_init
         [\<lparr>in_Intersection_ID_matched = Some 1, in_IntersectionID_SPaT = Some 1, in_t0 = 0,
           in_current_state = ''protected-Movement-Allowed'', in_countdown = 200\<rparr>]),
    self_g_e_curr
      (gwe_run gwe_init
         [\<lparr>in_Intersection_ID_matched = Some 1, in_IntersectionID_SPaT = Some 1, in_t0 = 0,
           in_current_state = ''protected-Movement-Allowed'', in_countdown = 200\<rparr>,
          \<lparr>in_Intersection_ID_matched = Some 1, in_IntersectionID_SPaT = Some 1, in_t0 = 100000,
           in_current_state = ''dark'', in_countdown = 199\<rparr>]))
   = (Some 20, None)"
  by (simp add: first_green_cycle dark_cycle)

text \<open>
  Claim C3, as amended: for every ingest that passes the intersection test with a phase
  that is neither red, yellow nor green, if the countdown differs from the last one
  observed (or none was observed) then nothing is written that cycle and the three cached
  values \<open>g_e_curr\<close>, \<open>g_s_next\<close>, \<open>g_e_next\<close> become \<^verbatim>\<open>None\<close>; if the countdown is the
  one last observed then the state of the component, the cached estimate with it, is
  unchanged.
\<close>

theorem unsupported_phase_ingest:
  assumes "in_Intersection_ID_matched inp = Some a" and "in_IntersectionID_SPaT inp = Some a"
      and "state_name_to_number (in_current_state inp) \<notin> {2, 3, 4, 5, 6, 7, 8, 9}"
  shows "if \<not> has_last_cd_tick s \<or> self_last_cd_tick s \<noteq> Some (py_int (in_countdown inp))
         then snd (gwe_Core s inp) = None \<and>
              self_g_e_curr (fst (gwe_Core s inp)) = None \<and>
              self_g_s_next (fst (gwe_Core s inp)) = None \<and>
              self_g_e_next (fst (gwe_Core s inp)) = None
         else fst (gwe_Core s inp) = s"
proof (cases "\<not> has_last_cd_tick s \<or> self_last_cd_tick s \<noteq> Some (py_int (in_countdown inp))")
  case True
  let ?s1 = "if has_last_cd_tick s then s
              else s\<lparr>has_last_cd_tick := True, self_last_cd_tick := None,
                     self_last_tick_time := Some (seconds_of (in_t0 inp)),
                     self_tick_intervals := []\<rparr>"
  let ?s2 = "on_new_tick ?s1 (seconds_of (in_t0 inp)) (state_name_to_number (in_current_state inp))
             (py_int (in_countdown inp))"
  have core: "gwe_Core s inp =
      (?s2, case (self_g_e_curr ?s2, self_g_s_next ?s2, self_g_e_next ?s2) of
              (Some g_e_curr, Some g_s_next, Some g_e_next) \<Rightarrow>
                Some \<lparr>g_e_curr_out = g_e_curr, g_s_next_out = g_s_next, g_e_next_out = g_e_next,
                      state_out = state_name_to_number (in_current_state inp)\<rparr>
            | _ \<Rightarrow> None)"
    using gwe_Core_new_tick [OF assms(1,2) True] by (simp only: Let_def)
  have "(self_g_s_next ?s2, self_g_e_next ?s2, self_g_e_curr ?s2) = (None, None, None)"
    unfolding on_new_tick_estimate using assms(3) by (simp add: estimate_table)
  then have cleared: "self_g_e_curr ?s2 = None" "self_g_s_next ?s2 = None" "self_g_e_next ?s2 = None"
    by simp_all
  from True show ?thesis
    by (simp only: core cleared fst_conv snd_conv if_True option.case prod.case simp_thms)
next
  case False
  then show ?thesis by (simp add: gwe_Core_same_tick(1))
qed

theorem unsupported_phase_ingest_witness:
  "snd (gwe_Core
     \<lparr>has_last_cd_tick = True, self_last_cd_tick = Some 200, self_last_tick_time = Some 0,
      self_tick_intervals = [0],
      self_g_e_curr = Some 20, self_g_s_next = Some 120, self_g_e_next = Some 170\<rparr>
     \<lparr>in_Intersection_ID_matched = Some 1, in_IntersectionID_SPaT = Some 1, in_t0 = 100000,
      in_current_state = ''dark'', in_countdown = 199\<rparr>) = None \<and>
   fst (gwe_Core
     \<lparr>has_last_cd_tick = True, self_last_cd_tick = Some 200, self_last_tick_time = Some 0,
      self_tick_intervals = [0],
      self_g_e_curr = Some 20, self_g_s_next = Some 120, self_g_e_next = Some 170\<rparr>
     \<lparr>in_Intersection_ID_matched = Some 1, in_IntersectionID_SPaT = Some 1, in_t0 = 100000,
      in_current_state = ''dark'', in_countdown = 200\<rparr>) =
     \<lparr>has_last_cd_tick = True, self_last_cd_tick = Some 200, self_last_tick_time = Some 0,
      self_tick_intervals = [0],
      self_g_e_curr = Some 20, self_g_s_next = Some 120, self_g_e_next = Some 170\<rparr>"
  using
    unsupported_phase_ingest [of
      "\<lparr>in_Intersection_ID_matched = Some 1, in_IntersectionID_SPaT = Some 1, in_t0 = 100000,
        in_current_state = ''dark'', in_countdown = 199\<rparr>" 1
      "\<lparr>has_last_cd_tick = True, self_last_cd_tick = Some 200, self_last_tick_time = Some 0,
        self_tick_intervals = [0],
        self_g_e_curr = Some 20, self_g_s_next = Some 120, self_g_e_next = Some 170\<rparr>"]
    unsupported_phase_ingest [of
      "\<lparr>in_Intersection_ID_matched = Some 1, in_IntersectionID_SPaT = Some 1, in_t0 = 100000,
        in_current_state = ''dark'', in_countdown = 200\<rparr>" 1
      "\<lparr>has_last_cd_tick = True, self_last_cd_tick = Some 200, self_last_tick_time = Some 0,
        self_tick_intervals = [0],
        self_g_e_curr = Some 20, self_g_s_next = Some 120, self_g_e_next = Some 170\<rparr>"]
  by (simp add: number_of_dark)



text \<open>
  Claim C9: after every sequence of cycles the tick history has at most 20 entries; a
  cycle whose countdown is the one last observed changes nothing in the state (history
  and cached estimate included; the average is a local of the other branch and is not
  computed) and writes the cached estimate as it is; and a cycle with a new countdown
  appends one interval to the history, dropping the oldest entry when there were 20.
\<close>

theorem tick_history_bounded:
  "length (self_tick_intervals (gwe_run gwe_init inps)) \<le> 20 \<and>
   (has_last_cd_tick s \<and> self_last_cd_tick s = Some (py_int (in_countdown inp)) \<longrightarrow>
      fst (gwe_Core s inp) = s \<and>
      snd (gwe_Core s inp) =
        (if in_Intersection_ID_matched inp \<noteq> None \<and>
            in_Intersection_ID_matched inp = in_IntersectionID_SPaT inp
         then (case (self_g_e_curr s, self_g_s_next s, self_g_e_next s) of
                 (Some g_e_curr, Some g_s_next, Some g_e_next) \<Rightarrow>
                   Some \<lparr>g_e_curr_out = g_e_curr, g_s_next_out = g_s_next,
                         g_e_next_out = g_e_next,
                         state_out = state_name_to_number (in_current_state inp)\<rparr>
               | _ \<Rightarrow> None)
         else None)) \<and>
   (in_Intersection_ID_matched inp = Some a \<and> in_IntersectionID_SPaT inp = Some a \<and>
    has_last_cd_tick s \<and> self_last_cd_tick s \<noteq> Some (py_int (in_countdown inp)) \<and>
    self_last_tick_time s = Some last_tick_time \<longrightarrow>
      self_tick_intervals (fst (gwe_Core s inp)) =
        (if length (self_tick_intervals s) \<ge> 20
         then tl (self_tick_intervals s) @ [seconds_of (in_t0 inp) - last_tick_time]
         else self_tick_intervals s @ [seconds_of (in_t0 inp) - last_tick_time]))"
proof (intro conjI impI)
  show "length (self_tick_intervals (gwe_run gwe_init inps)) \<le> 20"
    by (rule gwe_run_length) (simp add: gwe_init_def)
next
  assume same: "has_last_cd_tick s \<and> self_last_cd_tick s = Some (py_int (in_countdown inp))"
  then show "fst (gwe_Core s inp) = s"
    by (simp add: gwe_Core_same_tick(1))
  from same show "snd (gwe_Core s inp) =
        (if in_Intersection_ID_matched inp \<noteq> None \<and>
            in_Intersection_ID_matched inp = in_IntersectionID_SPaT inp
         then (case (self_g_e_curr s, self_g_s_next s, self_g_e_next s) of
                 (Some g_e_curr, Some g_s_next, Some g_e_next) \<Rightarrow>
                   Some \<lparr>g_e_curr_out = g_e_curr, g_s_next_out = g_s_next,
                         g_e_next_out = g_e_next,
                         state_out = state_name_to_number (in_current_state inp)\<rparr>
               | _ \<Rightarrow> None)
         else None)"
    by (simp only: gwe_Core_same_tick(2))
next
  assume new: "in_Intersection_ID_matched inp = Some a \<and> in_IntersectionID_SPaT inp = Some a \<and>
    has_last_cd_tick s \<and> self_last_cd_tick s \<noteq> Some (py_int (in_countdown inp)) \<and>
    self_last_tick_time s = Some last_tick_time"
  then have "fst (gwe_Core s inp) =
      on_new_tick s (seconds_of (in_t0 inp)) (state_name_to_number (in_current_state inp))
        (py_int (in_countdown inp))"
    using gwe_Core_new_tick [of inp a s] by (simp add: Let_def)
  with new show "self_tick_intervals (fst (gwe_Core s inp)) =
        (if length (self_tick_intervals s) \<ge> 20
         then tl (self_tick_intervals s) @ [seconds_of (in_t0 inp) - last_tick_time]
         else self_tick_intervals s @ [seconds_of (in_t0 inp) - last_tick_time])"
    by (cases "self_tick_intervals s") (auto simp: on_new_tick_intervals Let_def)
qed

theorem tick_history_bounded_witness:
  "length (self_tick_intervals (gwe_run gwe_init
     [\<lparr>in_Intersection_ID_matched = Some 1, in_IntersectionID_SPaT = Some 1, in_t0 = 0,
       in_current_state = ''protected-Movement-Allowed'', in_countdown = 200\<rparr>])) \<le> 20 \<and>
   gwe_Core
     \<lparr>has_last_cd_tick = True, self_last_cd_tick = Some 200, self_last_tick_time = Some 0,
      self_tick_intervals = [0],
      self_g_e_curr = Some 20, self_g_s_next = Some 120, self_g_e_next = Some 170\<rparr>
     \<lparr>in_Intersection_ID_matched = Some 1, in_IntersectionID_SPaT = Some 1, in_t0 = 100000,
      in_current_state = ''dark'', in_countdown = 200\<rparr> =
    (\<lparr>has_last_cd_tick = True, self_last_cd_tick = Some 200, self_last_tick_time = Some 0,
      self_tick_intervals = [0],
      self_g_e_curr = Some 20, self_g_s_next = Some 120, self_g_e_next = Some 170\<rparr>,
     Some \<lparr>g_e_curr_out = 20, g_s_next_out = 120, g_e_next_out = 170, state_out = 1\<rparr>) \<and>
   self_tick_intervals (fst (gwe_Core
     \<lparr>has_last_cd_tick = True, self_last_cd_tick = Some 200, self_last_tick_time = Some 0,
      self_tick_intervals = [0],
      self_g_e_curr = Some 20, self_g_s_next = Some 120, self_g_e_next = Some 170\<rparr>
     \<lparr>in_Intersection_ID_matched = Some 1, in_IntersectionID_SPaT = Some 1, in_t0 = 100000,
      in_current_state = ''protected-Movement-Allowed'', in_countdown = 199\<rparr>)) = [0, 1 / 10]"
  using
    tick_history_bounded [of
      "[\<lparr>in_Intersection_ID_matched = Some 1, in_IntersectionID_SPaT = Some 1, in_t0 = 0,
         in_current_state = ''protected-Movement-Allowed'', in_countdown = 200\<rparr>]"
      "\<lparr>has_last_cd_tick = True, self_last_cd_tick = Some 200, self_last_tick_time = Some 0,
        self_tick_intervals = [0],
        self_g_e_curr = Some 20, self_g_s_next = Some 120, self_g_e_next = Some 170\<rparr>"
      "\<lparr>in_Intersection_ID_matched = Some 1, in_IntersectionID_SPaT = Some 1, in_t0 = 100000,
        in_current_state = ''dark'', in_countdown = 200\<rparr>" 1 0]
    tick_history_bounded [of
      "[]"
      "\<lparr>has_last_cd_tick = True, self_last_cd_tick = Some 200, self_last_tick_time = Some 0,
        self_tick_intervals = [0],
        self_g_e_curr = Some 20, self_g_s_next = Some 120, self_g_e_next = Some 170\<rparr>"
      "\<lparr>in_Intersection_ID_matched = Some 1, in_IntersectionID_SPaT = Some 1, in_t0 = 100000,
        in_current_state = ''protected-Movement-Allowed'', in_countdown = 199\<rparr>" 1 0]
  by (simp add: number_of_dark seconds_of_tenth prod_eq_iff)

section \<open>The trajectory generator: claims C2, C4 and C10\<close>

lemma scen2_no_arrival:
  "t_cr \<le> start \<Longrightarrow> calculate_scen2_t_arr t_e t_cr [[start, stop]] = None"
  by (simp add: calculate_scen2_t_arr_def Let_def)

text \<open>
  The planner finds an arrival time for Scenario 2 (for Scenario 4) exactly when the second
  (the third) loop of \<^verbatim>\<open>identify_scenario\<close> finds an overlap in the same intervals: a
  label without an arrival time comes from a cycle with other inputs.
\<close>

lemma scen2_arrival_iff:
  "calculate_scen2_t_arr t_e t_cr gamma \<noteq> None \<longleftrightarrow> early_in_green gamma t_e t_cr"
proof -
  have "scen2_intersections t_e t_cr gamma \<noteq> [] \<longleftrightarrow> early_in_green gamma t_e t_cr"
    by (induction gamma t_e t_cr rule: early_in_green.induct) (simp_all add: Let_def)
  then show ?thesis
    by (simp add: calculate_scen2_t_arr_def Let_def)
qed

lemma scen4_arrival_iff:
  "calculate_scen4_t_arr t_l t_cr gamma \<noteq> None \<longleftrightarrow> overlap_found gamma t_cr t_l"
proof -
  have "scen4_intersections t_l t_cr gamma \<noteq> [] \<longleftrightarrow> overlap_found gamma t_cr t_l"
    by (induction gamma t_cr t_l rule: overlap_found.induct) (simp_all add: Let_def)
  then show ?thesis
    by (simp add: calculate_scen4_t_arr_def Let_def)
qed

lemma synthesize_no_arrival:
  assumes "scenario = ''Scenario 2'' \<and> calculate_scen2_t_arr (k_t_e k) (k_t_cr k) gamma = None
         \<or> scenario = ''Scenario 4'' \<and> calculate_scen4_t_arr (k_t_l k) (k_t_cr k) gamma = None"
  shows "synthesize dt k gamma t_0 d_0 g_s_next scenario = Inr None"
  using assms by (auto simp: synthesize_def)

lemma compute_no_arrival:
  assumes "dmtg_kinematics d_0 v_c = Inr k"
      and "scenario = ''Scenario 2'' \<and>
             calculate_scen2_t_arr (k_t_e k) (k_t_cr k) (dmtg_gamma t_0 g_e_curr g_s_next g_e_next) = None
         \<or> scenario = ''Scenario 4'' \<and>
             calculate_scen4_t_arr (k_t_l k) (k_t_cr k) (dmtg_gamma t_0 g_e_curr g_s_next g_e_next) = None"
  shows "compute_velocity_profile dt sink_fails t_0 d_0 (Some v_c) g_e_curr g_s_next g_e_next scenario
         = Inr None"
  using assms(1) synthesize_no_arrival [OF assms(2)]
  by (simp add: compute_velocity_profile_def)

lemma tg_Core_compute_None:
  assumes "self_precomputed_velocity_profile s = None"
      and "compute_velocity_profile (self_dt s) sf (seconds_of t) d_0 v_c g_e_curr g_s_next g_e_next scenario
           = Inr None"
  shows "tg_Core s \<lparr>tg_scenario = Some scenario, tg_d_0 = Some d_0, tg_v_c = v_c, tg_t_0 = t,
                    tg_g_e_curr = Some g_e_curr, tg_g_s_next = Some g_s_next,
                    tg_g_e_next = Some g_e_next, tg_sink_fails = sf\<rparr> = (s, Inl TypeError)"
  using assms by (simp add: tg_Core_def)

lemma tg_Core_compute_raises:
  assumes "self_precomputed_velocity_profile s = None"
      and "tg_scenario inp = Some scenario" and "tg_d_0 inp = Some d_0"
      and "tg_g_e_curr inp = Some g_e_curr" and "tg_g_s_next inp = Some g_s_next"
      and "tg_g_e_next inp = Some g_e_next"
      and "compute_velocity_profile (self_dt s) (tg_sink_fails inp) (seconds_of (tg_t_0 inp)) d_0
             (tg_v_c inp) g_e_curr g_s_next g_e_next scenario = Inl e"
  shows "tg_Core s inp = (s, Inl e)"
  using assms by (simp add: tg_Core_def)

lemma tg_Core_missing:
  assumes "tg_d_0 inp = None \<or> tg_g_e_curr inp = None \<or> tg_g_s_next inp = None \<or> tg_g_e_next inp = None"
  shows "tg_Core s inp = (s, Inr None)"
  using assms by (auto simp: tg_Core_def split: option.splits)

text \<open>
  Claim C2 asks that a Scenario 2 (or 4) cycle without a feasible arrival time ends as a
  structured failure and that no unstructured exception leaves the component. In such a
  cycle \<^verbatim>\<open>compute_velocity_profile\<close> prints its message and returns \<^verbatim>\<open>None\<close>, and the
  triple assignment of \<^verbatim>\<open>Core\<close> (line 82) raises \<^verbatim>\<open>TypeError\<close> on it: the exception
  leaves \<^verbatim>\<open>Core\<close>, the state being as before. Here the cruise arrival time is 12 s and
  the only green window opens at 1000 s.
\<close>

theorem tg_Core_no_feasible_arrival_raises:
  "tg_Core Birth \<lparr>tg_scenario = Some ''Scenario 2'', tg_d_0 = Some 100, tg_v_c = Some 30,
                  tg_t_0 = 0, tg_g_e_curr = Some (- 1), tg_g_s_next = Some 1000,
                  tg_g_e_next = Some 1050, tg_sink_fails = False\<rparr> = (Birth, Inl TypeError)"
proof -
  obtain k where k: "dmtg_kinematics 100 30 = Inr k" and tcr: "k_t_cr k = 100 / (30 * (5 / 18))"
    using dmtg_kinematics_Inr [of 30 100] by auto
  have "calculate_scen2_t_arr (k_t_e k) (k_t_cr k) (dmtg_gamma 0 (- 1) 1000 1050) = None"
    by (simp add: dmtg_gamma_def tcr scen2_no_arrival)
  then have "compute_velocity_profile (self_dt Birth) False (seconds_of 0) 100 (Some 30) (- 1) 1000 1050
               ''Scenario 2'' = Inr None"
    using k by (simp add: compute_no_arrival)
  moreover have "self_precomputed_velocity_profile Birth = None"
    by (simp add: Birth_def)
  ultimately show ?thesis
    by (rule tg_Core_compute_None [rotated])
qed

lemma tg_Core_ready: "self_precomputed_velocity_profile s \<noteq> None \<Longrightarrow> fst (tg_Core s inp) = s"
  by (auto simp: tg_Core_def Let_def split: option.splits sum.splits)

lemma tg_run_ready: "self_precomputed_velocity_profile s \<noteq> None \<Longrightarrow> tg_run s inps = s"
  by (induction inps) (simp_all add: tg_Core_ready)

lemma tg_run_append: "tg_run s (xs @ ys) = tg_run (tg_run s xs) ys"
  by (induction xs arbitrary: s) simp_all

lemma tg_Core_last_scenario: "self_last_scenario (fst (tg_Core s inp)) = self_last_scenario s"
  by (auto simp: tg_Core_def Let_def split: option.splits sum.splits)

lemma tg_run_last_scenario: "self_last_scenario (tg_run s inps) = self_last_scenario s"
  by (induction inps arbitrary: s) (simp_all add: tg_Core_last_scenario)

lemma tg_Core_becomes_ready:
  assumes "self_precomputed_velocity_profile s = None"
      and "self_precomputed_velocity_profile (fst (tg_Core s inp)) = Some profile"
  shows "\<exists>a b. self_profile_start_time (fst (tg_Core s inp)) = Some a \<and>
               self_profile_end_time (fst (tg_Core s inp)) = Some b \<and>
               computed_by s inp profile a b"
  using assms
  by (auto simp: tg_Core_def Let_def computed_by_def split: option.splits sum.splits)

lemma first_compute_in_run:
  assumes "self_precomputed_velocity_profile s = None"
      and "self_precomputed_velocity_profile (tg_run s inps) = Some profile"
  shows "\<exists>before inp after a b.
           inps = before @ inp # after \<and>
           self_precomputed_velocity_profile (tg_run s before) = None \<and>
           self_profile_start_time (tg_run s inps) = Some a \<and>
           self_profile_end_time (tg_run s inps) = Some b \<and>
           computed_by (tg_run s before) inp profile a b"
  using assms
proof (induction inps arbitrary: s)
  case Nil
  then show ?case by simp
next
  case (Cons inp rest)
  let ?s1 = "fst (tg_Core s inp)"
  show ?case
  proof (cases "self_precomputed_velocity_profile ?s1")
    case None
    from Cons.prems(2) have "self_precomputed_velocity_profile (tg_run ?s1 rest) = Some profile"
      by simp
    from Cons.IH [OF None this]
    obtain before inp' after a b where
      "rest = before @ inp' # after"
      "self_precomputed_velocity_profile (tg_run ?s1 before) = None"
      "self_profile_start_time (tg_run ?s1 rest) = Some a"
      "self_profile_end_time (tg_run ?s1 rest) = Some b"
      "computed_by (tg_run ?s1 before) inp' profile a b"
      by blast
    then have "inp # rest = (inp # before) @ inp' # after \<and>
           self_precomputed_velocity_profile (tg_run s (inp # before)) = None \<and>
           self_profile_start_time (tg_run s (inp # rest)) = Some a \<and>
           self_profile_end_time (tg_run s (inp # rest)) = Some b \<and>
           computed_by (tg_run s (inp # before)) inp' profile a b"
      by simp
    then show ?thesis by blast
  next
    case (Some p1)
    then have stay: "tg_run ?s1 rest = ?s1"
      by (simp add: tg_run_ready)
    with Cons.prems(2) Some have "self_precomputed_velocity_profile ?s1 = Some profile"
      by simp
    from tg_Core_becomes_ready [OF Cons.prems(1) this]
    obtain a b where "self_profile_start_time ?s1 = Some a" "self_profile_end_time ?s1 = Some b"
      "computed_by s inp profile a b"
      by blast
    with stay Cons.prems(1) have "inp # rest = [] @ inp # rest \<and>
           self_precomputed_velocity_profile (tg_run s []) = None \<and>
           self_profile_start_time (tg_run s (inp # rest)) = Some a \<and>
           self_profile_end_time (tg_run s (inp # rest)) = Some b \<and>
           computed_by (tg_run s []) inp profile a b"
      by simp
    then show ?thesis by blast
  qed
qed

text \<open>
  Claim C4: once a cycle has cached a profile, no later cycle clears or recomputes it.
  For every run of cycles from \<^verbatim>\<open>Birth\<close> that ends with a cached profile: every
  continuation of the run ends in the same state; \<^verbatim>\<open>last_scenario\<close> was never written (the
  reset of lines 78 and 79 is dead code); and the cached profile, start and end are the
  triple that \<^verbatim>\<open>compute_velocity_profile\<close> returned in the one cycle of the run that found
  the cache empty and left it filled.
\<close>

theorem profile_computed_once:
  assumes "self_precomputed_velocity_profile (tg_run Birth inps) = Some profile"
  shows "(\<forall>more. tg_run Birth (inps @ more) = tg_run Birth inps) \<and>
         self_last_scenario (tg_run Birth inps) = None \<and>
         (\<exists>before inp after start_time end_time.
            inps = before @ inp # after \<and>
            self_precomputed_velocity_profile (tg_run Birth before) = None \<and>
            computed_by (tg_run Birth before) inp profile start_time end_time \<and>
            self_profile_start_time (tg_run Birth inps) = Some start_time \<and>
            self_profile_end_time (tg_run Birth inps) = Some end_time)"
proof -
  have frozen: "\<forall>more. tg_run Birth (inps @ more) = tg_run Birth inps"
    using assms by (simp add: tg_run_append tg_run_ready)
  have never_written: "self_last_scenario (tg_run Birth inps) = None"
    by (simp add: tg_run_last_scenario Birth_def)
  have empty: "self_precomputed_velocity_profile Birth = None"
    by (simp add: Birth_def)
  from first_compute_in_run [OF empty assms] frozen never_written
  show ?thesis by blast
qed

lemma synthesize_scenario_1:
  "synthesize dt k gamma t_0 d_0 g_s_next ''Scenario 1'' =
     Inr (Some (map (\<lambda>t. (t, if k_v_c_ms k * (36 / 10) \<ge> k_v_limit k then k_v_limit k
                             else k_v_c_ms k * (36 / 10)))
                  (np_arange t_0 (t_0 + 30 + dt) dt),
                Some (t_0 + 30)))"
  by (simp add: synthesize_def Let_def)

lemma first_cycle_state:
  "fst (tg_Core Birth \<lparr>tg_scenario = Some ''Scenario 1'', tg_d_0 = Some 100, tg_v_c = Some 30,
                  tg_t_0 = 0, tg_g_e_curr = Some 20, tg_g_s_next = Some 120,
                  tg_g_e_next = Some 170, tg_sink_fails = False\<rparr>) =
     Birth\<lparr>self_precomputed_velocity_profile :=
              Some (map (\<lambda>t. (t, 30)) (np_arange 0 (301 / 10) (1 / 10))),
            self_profile_start_time := Some 0, self_profile_end_time := Some 30\<rparr>"
proof -
  obtain k where k: "dmtg_kinematics 100 30 = Inr k" and v: "k_v_c_ms k = 30 * (5 / 18)"
    and vl: "k_v_limit k = 5633 / 100"
    using dmtg_kinematics_Inr [of 30 100] by auto
  have "compute_velocity_profile (1 / 10) False 0 100 (Some 30) 20 120 170 ''Scenario 1''
        = Inr (Some (map (\<lambda>t. (t, 30)) (np_arange 0 (301 / 10) (1 / 10)), 0, 30))"
    by (simp add: compute_velocity_profile_def k synthesize_scenario_1 v vl)
  then show ?thesis
    by (simp add: tg_Core_def Birth_def split: sum.splits)
qed

theorem profile_computed_once_witness:
  "self_precomputed_velocity_profile
     (tg_run Birth [\<lparr>tg_scenario = Some ''Scenario 1'', tg_d_0 = Some 100, tg_v_c = Some 30,
                  tg_t_0 = 0, tg_g_e_curr = Some 20, tg_g_s_next = Some 120,
                  tg_g_e_next = Some 170, tg_sink_fails = False\<rparr>])
     = Some (map (\<lambda>t. (t, 30)) (np_arange 0 (301 / 10) (1 / 10))) \<and>
   (\<forall>more. tg_run Birth ([\<lparr>tg_scenario = Some ''Scenario 1'', tg_d_0 = Some 100, tg_v_c = Some 30,
                  tg_t_0 = 0, tg_g_e_curr = Some 20, tg_g_s_next = Some 120,
                  tg_g_e_next = Some 170, tg_sink_fails = False\<rparr>] @ more) =
      tg_run Birth [\<lparr>tg_scenario = Some ''Scenario 1'', tg_d_0 = Some 100, tg_v_c = Some 30,
                  tg_t_0 = 0, tg_g_e_curr = Some 20, tg_g_s_next = Some 120,
                  tg_g_e_next = Some 170, tg_sink_fails = False\<rparr>])"
proof -
  have ready: "self_precomputed_velocity_profile
     (tg_run Birth [\<lparr>tg_scenario = Some ''Scenario 1'', tg_d_0 = Some 100, tg_v_c = Some 30,
                  tg_t_0 = 0, tg_g_e_curr = Some 20, tg_g_s_next = Some 120,
                  tg_g_e_next = Some 170, tg_sink_fails = False\<rparr>])
     = Some (map (\<lambda>t. (t, 30)) (np_arange 0 (301 / 10) (1 / 10)))"
    by (simp add: first_cycle_state)
  from profile_computed_once [OF ready] ready show ?thesis
    by blast
qed

lemma synthesize_unrecognized:
  assumes "scenario \<notin> {''Scenario 1'', ''Scenario 2'', ''Scenario 3'', ''Scenario 4''}"
  shows "synthesize dt k gamma t_0 d_0 g_s_next scenario = Inr (Some ([], None))"
  using assms by (simp add: synthesize_def)

lemma compute_unrecognized:
  assumes "scenario \<notin> {''Scenario 1'', ''Scenario 2'', ''Scenario 3'', ''Scenario 4''}"
  shows "compute_velocity_profile dt sink_fails t_0 d_0 v_c g_e_curr g_s_next g_e_next scenario =
           (case v_c of None \<Rightarrow> Inl TypeError
            | Some v \<Rightarrow> and_then (dmtg_kinematics d_0 v)
                (\<lambda>k. if sink_fails then Inl OSError else Inl UnboundLocalError))"
  by (simp add: compute_velocity_profile_def synthesize_unrecognized [OF assms] cong: option.case_cong)

lemma and_then_const_error: "\<exists>e. and_then r (\<lambda>k. Inl e1) = Inl e"
  by (cases r) auto

lemma compute_unrecognized_raises:
  assumes "scenario \<notin> {''Scenario 1'', ''Scenario 2'', ''Scenario 3'', ''Scenario 4''}"
  shows "\<exists>e. compute_velocity_profile dt sink_fails t_0 d_0 v_c g_e_curr g_s_next g_e_next scenario
              = Inl e"
  unfolding compute_unrecognized [OF assms]
  by (cases v_c; cases sink_fails) (simp_all add: and_then_const_error)

lemma dmsi_over_limit:
  "si_Core \<lparr>si_d_0 = Some 100, si_v_c_in = Some 60, si_t_0 = 0, si_g_e_curr = Some (- 1),
            si_g_s_next = Some 10, si_g_e_next = Some 60\<rparr> =
   Inr \<lparr>scenario_out = Some ''Invalid Speed'', scenario_n_out = None, d_0_out = Some 100\<rparr>"
proof -
  obtain k where k: "dmsi_kinematics 100 60 = Inr k" and v: "k_v_c_ms k = 60 * (5 / 18)"
    and vl: "k_v_limit_ms k = 5633 / 100 * (5 / 18)"
    using dmsi_kinematics_Inr [of 60 100] by auto
  show ?thesis
    by (simp add: si_Core_def k v vl)
qed

text \<open>
  Claim C10: for every scenario label other than the four strings \<^verbatim>\<open>"Scenario 1"\<close> to
  \<^verbatim>\<open>"Scenario 4"\<close>, \<^verbatim>\<open>compute_velocity_profile\<close> takes no synthesis branch, leaving the
  sample list empty and \<^verbatim>\<open>t_end\<close> unassigned; when the kinematic block and the sink do
  not raise before, its last line raises \<^verbatim>\<open>UnboundLocalError\<close>; and a cycle of \<^verbatim>\<open>Core\<close>
  that finds the cache empty writes no velocity and leaves the cache empty. The witness
  takes the label \<^verbatim>\<open>"Invalid Speed"\<close> from the scenario output of \<^verbatim>\<open>DMSI.Core\<close> at 60 km/h.
\<close>

theorem unrecognized_label_gives_no_velocity:
  assumes "scenario \<notin> {''Scenario 1'', ''Scenario 2'', ''Scenario 3'', ''Scenario 4''}"
      and "self_precomputed_velocity_profile s = None"
      and "tg_scenario inp = Some scenario"
  shows "(\<forall>k gamma t_0 d_0 g_s_next.
            synthesize (self_dt s) k gamma t_0 d_0 g_s_next scenario = Inr (Some ([], None))) \<and>
         (\<forall>t_0 d_0 v_c g_e_curr g_s_next g_e_next k.
            dmtg_kinematics d_0 v_c = Inr k \<longrightarrow>
            compute_velocity_profile (self_dt s) False t_0 d_0 (Some v_c) g_e_curr g_s_next g_e_next
              scenario = Inl UnboundLocalError) \<and>
         fst (tg_Core s inp) = s \<and>
         (snd (tg_Core s inp) = Inr None \<or> (\<exists>e. snd (tg_Core s inp) = Inl e))"
proof -
  have a: "\<forall>k gamma t_0 d_0 g_s_next.
            synthesize (self_dt s) k gamma t_0 d_0 g_s_next scenario = Inr (Some ([], None))"
    by (simp add: synthesize_unrecognized [OF assms(1)])
  have b: "\<forall>t_0 d_0 v_c g_e_curr g_s_next g_e_next k.
            dmtg_kinematics d_0 v_c = Inr k \<longrightarrow>
            compute_velocity_profile (self_dt s) False t_0 d_0 (Some v_c) g_e_curr g_s_next g_e_next
              scenario = Inl UnboundLocalError"
    by (simp add: compute_unrecognized [OF assms(1)])
  have c: "tg_Core s inp = (s, Inr None) \<or> (\<exists>e. tg_Core s inp = (s, Inl e))"
  proof (cases "tg_d_0 inp = None \<or> tg_g_e_curr inp = None \<or> tg_g_s_next inp = None \<or> tg_g_e_next inp = None")
    case True
    then show ?thesis by (simp add: tg_Core_missing)
  next
    case False
    then obtain d_0 g_e_curr g_s_next g_e_next where present:
      "tg_d_0 inp = Some d_0" "tg_g_e_curr inp = Some g_e_curr"
      "tg_g_s_next inp = Some g_s_next" "tg_g_e_next inp = Some g_e_next"
      by auto
    obtain e where "compute_velocity_profile (self_dt s) (tg_sink_fails inp) (seconds_of (tg_t_0 inp)) d_0
             (tg_v_c inp) g_e_curr g_s_next g_e_next scenario = Inl e"
      using compute_unrecognized_raises [OF assms(1)] by blast
    from tg_Core_compute_raises [OF assms(2) assms(3) present this]
    show ?thesis by blast
  qed
  from a b c show ?thesis by auto
qed

theorem unrecognized_label_gives_no_velocity_witness:
  "si_Core \<lparr>si_d_0 = Some 100, si_v_c_in = Some 60, si_t_0 = 0, si_g_e_curr = Some (- 1),
            si_g_s_next = Some 10, si_g_e_next = Some 60\<rparr> =
     Inr \<lparr>scenario_out = Some ''Invalid Speed'', scenario_n_out = None, d_0_out = Some 100\<rparr> \<and>
   tg_Core Birth
     \<lparr>tg_scenario = Some ''Invalid Speed'', tg_d_0 = Some 100, tg_v_c = Some 60, tg_t_0 = 0,
      tg_g_e_curr = Some (- 1), tg_g_s_next = Some 10, tg_g_e_next = Some 60,
      tg_sink_fails = False\<rparr> = (Birth, Inl UnboundLocalError)"
proof -
  let ?inp = "\<lparr>tg_scenario = Some ''Invalid Speed'', tg_d_0 = Some 100, tg_v_c = Some 60,
      tg_t_0 = 0, tg_g_e_curr = Some (- 1), tg_g_s_next = Some 10, tg_g_e_next = Some 60,
      tg_sink_fails = False\<rparr>"
  have label: "''Invalid Speed'' \<notin> {''Scenario 1'', ''Scenario 2'', ''Scenario 3'', ''Scenario 4''}"
    by simp
  have empty: "self_precomputed_velocity_profile Birth = None"
    by (simp add: Birth_def)
  have given: "tg_scenario ?inp = Some ''Invalid Speed''"
    by simp
  obtain k where k: "dmtg_kinematics 100 60 = Inr k"
    using dmtg_kinematics_Inr [of 60 100] by auto
  from unrecognized_label_gives_no_velocity [OF label empty given] k
  have "compute_velocity_profile (self_dt Birth) False (seconds_of 0) 100 (Some 60) (- 1) 10 60
          ''Invalid Speed'' = Inl UnboundLocalError"
    by blast
  then have "tg_Core Birth ?inp = (Birth, Inl UnboundLocalError)"
    by (intro tg_Core_compute_raises [OF empty]) simp_all
  with dmsi_over_limit show ?thesis
    by simp
qed

end
